theory Spec2Isabelle
  imports Complex_Main
begin

section \<open>Numbers and vectors\<close>

text \<open>
  The program is TypeScript on three.js. Its numbers are IEEE doubles; they are modelled
  here as the reals, so every statement below is about the exact arithmetic the code
  writes down, not about rounding. Where the code guards a division (the length of a
  vector that may be zero) the guard is written out, so that no division by zero is ever
  evaluated in the model.

  \<open>THREE.Vector3\<close> is a mutable object with fields \<open>x\<close>, \<open>y\<close>, \<open>z\<close>. The code
  clones before it mutates a vector it does not own, so a value type with the library's
  operations is enough. The operations follow the three.js library:
  \<^verbatim>\<open>
  sub(v)            x -= v.x; y -= v.y; z -= v.z
  add(v)            x += v.x; y += v.y; z += v.z
  multiplyScalar(s) x *= s; y *= s; z *= s
  divideScalar(s)   multiplyScalar(1 / s)
  length()          Math.sqrt(x*x + y*y + z*z)
  distanceTo(v)     Math.sqrt(dx*dx + dy*dy + dz*dz)
  normalize()       divideScalar(length() || 1)
  \<close>
  \<open>length() || 1\<close> is 1 when the length is 0: normalising the zero vector leaves it zero.
\<close>

datatype vec3 = Vector3 (vx: real) (vy: real) (vz: real)

definition sub_v :: "vec3 \<Rightarrow> vec3 \<Rightarrow> vec3" where
  "sub_v a b = Vector3 (vx a - vx b) (vy a - vy b) (vz a - vz b)"

definition add_v :: "vec3 \<Rightarrow> vec3 \<Rightarrow> vec3" where
  "add_v a b = Vector3 (vx a + vx b) (vy a + vy b) (vz a + vz b)"

definition multiplyScalar :: "vec3 \<Rightarrow> real \<Rightarrow> vec3" where
  "multiplyScalar a s = Vector3 (vx a * s) (vy a * s) (vz a * s)"

definition divideScalar :: "vec3 \<Rightarrow> real \<Rightarrow> vec3" where
  "divideScalar a s = multiplyScalar a (1 / s)"

definition length_v :: "vec3 \<Rightarrow> real" where
  "length_v a = sqrt (vx a * vx a + vy a * vy a + vz a * vz a)"

definition distanceTo :: "vec3 \<Rightarrow> vec3 \<Rightarrow> real" where
  "distanceTo a b =
     (let dx = vx a - vx b; dy = vy a - vy b; dz = vz a - vz b
      in sqrt (dx * dx + dy * dy + dz * dz))"

definition normalize_v :: "vec3 \<Rightarrow> vec3" where
  "normalize_v a = divideScalar a (if length_v a = 0 then 1 else length_v a)"

section \<open>Ornaments: the per-frame integrator\<close>

text \<open>
  \<open>interface OrnamentData\<close>. The colour is an RGB triple; \<open>phase\<close> is always set by
  the generator.
\<close>

record OrnamentData =
  chaos :: vec3
  target :: vec3
  current :: vec3
  velocity :: vec3
  scale :: real
  color :: vec3
  phase :: real

text \<open>
  \<open>updateList\<close> is called with the six literal type strings and no other; they are the
  constructors below. (The initial values \<open>speed = 3.0\<close>, \<open>damping = 0.9\<close>,
  \<open>repulsionWeight = 1.0\<close> of the source are overwritten in each of the six branches.)
\<close>

datatype ornament_type = Bauble | Box | Light | Star | Bell | Cane

text \<open>The physics weights of a type: \<open>(speed, damping, repulsionWeight)\<close>.\<close>

fun profile :: "ornament_type \<Rightarrow> real \<times> real \<times> real" where
  "profile Box = (1.2, 0.82, 0.2)"
| "profile Star = (4.0, 0.92, 1.2)"
| "profile Bell = (2.0, 0.88, 0.5)"
| "profile Cane = (4.0, 0.94, 1.5)"
| "profile Light = (6.0, 0.95, 2.5)"
| "profile Bauble = (2.8, 0.9, 0.8)"

text \<open>
  The mouse interaction of \<open>updateList\<close>:
  \<^verbatim>\<open>
  const dist = item.current.distanceTo(mouseVec);
  if (dist < 3.5) {
      const dir = item.current.clone().sub(mouseVec).normalize();
      const str = (3.5 - dist) * 15.0 * delta * repulsionWeight;
      item.velocity.add(dir.multiplyScalar(str));
  }
  \<close>
  \<open>repulsion\<close> is the vector this block adds to the velocity; where the block is
  skipped nothing is added, which is the zero vector.
\<close>

definition repulsion :: "vec3 \<Rightarrow> vec3 \<Rightarrow> real \<Rightarrow> real \<Rightarrow> vec3" where
  "repulsion cur mouseVec delta repulsionWeight =
     (let dist = distanceTo cur mouseVec
      in if dist < 3.5 then
           (let dir = normalize_v (sub_v cur mouseVec);
                str = (3.5 - dist) * 15.0 * delta * repulsionWeight
            in multiplyScalar dir str)
         else Vector3 0 0 0)"

text \<open>
  The body of \<open>list.forEach\<close> in \<open>updateList\<close>, as far as it mutates the item:
  the force towards the destination, the mouse interaction, damping, and the move. (The
  rest of the body writes the instance matrix and, for lights, the instance colour of the
  mesh; it reads the item and does not change it.)
\<close>

definition updateItem :: "bool \<Rightarrow> vec3 \<Rightarrow> real \<Rightarrow> ornament_type \<Rightarrow> OrnamentData \<Rightarrow> OrnamentData" where
  "updateItem isFormed mouseVec delta type item =
     (let dest = (if isFormed then target item else chaos item);
          (speed, damping, repulsionWeight) = profile type;
          force = multiplyScalar (sub_v dest (current item)) (speed * delta);
          v1 = add_v (velocity item) force;
          v2 = add_v v1 (repulsion (current item) mouseVec delta repulsionWeight);
          v3 = multiplyScalar v2 damping
      in item\<lparr>velocity := v3, current := add_v (current item) v3\<rparr>)"

text \<open>
  \<open>updateList\<close>: \<open>if (!ref.current) return;\<close> and then the body on every item, in
  order. \<open>refCurrent\<close> tells whether the mesh ref is set.
\<close>

definition updateList :: "bool \<Rightarrow> bool \<Rightarrow> vec3 \<Rightarrow> real \<Rightarrow> ornament_type \<Rightarrow> OrnamentData list \<Rightarrow> OrnamentData list" where
  "updateList refCurrent isFormed mouseVec delta type list =
     (if \<not> refCurrent then list else map (updateItem isFormed mouseVec delta type) list)"

section \<open>Foliage: the shader's pointer displacement and the blend progress\<close>



datatype mode = Chaos | Formed

text \<open>\<open>THREE.MathUtils.lerp(x, y, t)\<close> is \<open>(1 - t) * x + t * y\<close>.\<close>

definition lerp :: "real \<Rightarrow> real \<Rightarrow> real \<Rightarrow> real" where
  "lerp x y t = (1 - t) * x + t * y"

text \<open>
  The frame callback of \<open>Foliage\<close>, on the uniform \<open>uProgress\<close> of the material (which
  starts at 0):
  \<^verbatim>\<open>
  const targetProgress = mode === 'formed' ? 1.0 : 0.0;
  materialRef.current.uProgress = THREE.MathUtils.lerp(
    materialRef.current.uProgress, targetProgress, delta * 0.8);
  \<close>
\<close>

definition uProgress_initial :: real where
  "uProgress_initial = 0"

definition Foliage_frame :: "mode \<Rightarrow> real \<Rightarrow> real \<Rightarrow> real" where
  "Foliage_frame md delta uProgress =
     (let targetProgress = (if md = Formed then 1.0 else 0.0)
      in lerp uProgress targetProgress (delta * 0.8))"

text \<open>A run of frames, each with the mode and the time delta of that frame.\<close>

fun Foliage_frames :: "real \<Rightarrow> (mode \<times> real) list \<Rightarrow> real" where
  "Foliage_frames uProgress [] = uProgress"
| "Foliage_frames uProgress ((md, delta) # fs) = Foliage_frames (Foliage_frame md delta uProgress) fs"

section \<open>The layout generators\<close>

text \<open>
  \<open>CONFIG.dimensions\<close>. The generators call \<open>Math.random()\<close>; each call is a
  parameter \<open>u\<close> of the model, a number in \<open>[0, 1)\<close>. \<open>Math.cbrt\<close> is the real cube
  root, \<open>Math.acos\<close> the arc cosine on \<open>[-1, 1]\<close>, and \<open>Math.pow(b, 0.85)\<close> is
  \<open>b powr 0.85\<close> for \<open>b \<ge> 0\<close>.
\<close>

definition CONFIG_height :: real where
  "CONFIG_height = 9"

definition CONFIG_radius :: real where
  "CONFIG_radius = 3.5"

text \<open>
  One pass of the loop of \<open>generateTreeData\<close> (the foliage): the chaos position from the
  first three draws, the target position from the next three.
\<close>

definition treeChaos :: "real \<Rightarrow> real \<Rightarrow> real \<Rightarrow> vec3" where
  "treeChaos u1 u2 u3 =
     (let r = 18 * root 3 u1;
          theta = u2 * 2 * pi;
          phi = arccos (2 * u3 - 1)
      in Vector3 (r * sin phi * cos theta) (r * sin phi * sin theta) (r * cos phi))"

definition treeTarget :: "real \<Rightarrow> real \<Rightarrow> real \<Rightarrow> vec3" where
  "treeTarget u4 u5 u6 =
     (let y = (u4 - 0.5) * CONFIG_height;
          normalizedY = 1 - (y + CONFIG_height / 2) / CONFIG_height;
          radiusAtY = CONFIG_radius * (normalizedY powr 0.85);
          spiralAngle = y * 8.0 + u5 * pi * 2;
          volumeR = radiusAtY * sqrt u6;
          tx = cos spiralAngle * volumeR;
          tz = sin spiralAngle * volumeR
      in Vector3 tx y tz)"

text \<open>
  \<open>generateTreeData(count)\<close>: the four arrays, one entry per point; \<open>rnd k\<close> is the
  result of the \<open>k\<close>-th call of \<open>Math.random()\<close>, eight calls per point.
  (The source stores the coordinates in \<open>Float32Array\<close>s, three numbers per point;
  the rounding to single precision on storing is not modelled.)
\<close>

record TreeData =
  chaosPositions :: "vec3 list"
  targetPositions :: "vec3 list"
  sizes :: "real list"
  randoms :: "real list"

definition generateTreeData :: "nat \<Rightarrow> (nat \<Rightarrow> real) \<Rightarrow> TreeData" where
  "generateTreeData count rnd =
     \<lparr>chaosPositions = map (\<lambda>i. treeChaos (rnd (8 * i)) (rnd (8 * i + 1)) (rnd (8 * i + 2))) [0..<count],
      targetPositions = map (\<lambda>i. treeTarget (rnd (8 * i + 3)) (rnd (8 * i + 4)) (rnd (8 * i + 5))) [0..<count],
      sizes = map (\<lambda>i. rnd (8 * i + 6) * 0.8 + 0.2) [0..<count],
      randoms = map (\<lambda>i. rnd (8 * i + 7)) [0..<count]\<rparr>"

text \<open>
  The loop of \<open>Ornaments\<close> that creates the ornaments: chaos and target position of one
  ornament, from its first five draws.
  \<^verbatim>\<open>
  const y = (Math.random() - 0.5) * (CONFIG.dimensions.height - 1.5);
  const normalizedY = 1 - (y + CONFIG.dimensions.height/2) / CONFIG.dimensions.height;
  const radiusAtY = (CONFIG.dimensions.radius - 0.4) * normalizedY;
  const angle = Math.random() * Math.PI * 2;
  const target = new THREE.Vector3(Math.cos(angle) * radiusAtY, y, Math.sin(angle) * radiusAtY);
  \<close>
\<close>

definition ornamentChaos :: "real \<Rightarrow> real \<Rightarrow> real \<Rightarrow> vec3" where
  "ornamentChaos u1 u2 u3 =
     (let r = 14 * root 3 u1;
          theta = u2 * 2 * pi;
          phi = arccos (2 * u3 - 1)
      in Vector3 (r * sin phi * cos theta) (r * sin phi * sin theta) (r * cos phi))"

definition ornamentTarget :: "real \<Rightarrow> real \<Rightarrow> vec3" where
  "ornamentTarget u4 u5 =
     (let y = (u4 - 0.5) * (CONFIG_height - 1.5);
          normalizedY = 1 - (y + CONFIG_height / 2) / CONFIG_height;
          radiusAtY = (CONFIG_radius - 0.4) * normalizedY;
          angle = u5 * pi * 2
      in Vector3 (cos angle * radiusAtY) y (sin angle * radiusAtY))"

section \<open>The global mode and the hand signals\<close>

text \<open>
  The React state of \<open>App\<close>: \<open>useState('formed')\<close>, \<open>useState(null)\<close>,
  \<open>useState(false)\<close>.
\<close>

record AppState =
  app_mode :: mode
  app_handPosition :: "(real \<times> real) option"
  app_isPinching :: bool

definition App_initial :: AppState where
  "App_initial = \<lparr>app_mode = Formed, app_handPosition = None, app_isPinching = False\<rparr>"

text \<open>
  The mode decision of \<open>predictWebcam\<close> on the signal \<open>avgDist\<close>:
  \<^verbatim>\<open>
  if (avgDist > 0.25) { setMode('chaos'); } else if (avgDist < 0.15) { setMode('formed'); }
  \<close>
\<close>

definition setMode :: "real \<Rightarrow> mode \<Rightarrow> mode" where
  "setMode avgDist md =
     (if avgDist > 0.25 then Chaos else if avgDist < 0.15 then Formed else md)"

text \<open>A run of signal values, one per detected hand, oldest first.\<close>

fun setModes :: "mode \<Rightarrow> real list \<Rightarrow> mode" where
  "setModes md [] = md"
| "setModes md (avgDist # rest) = setModes (setMode avgDist md) rest"

text \<open>
  What one call of \<open>predictWebcam\<close> sees: no new video frame (or no landmarker yet), a
  frame without a hand, or a frame with the landmarks of a hand. MediaPipe returns 21
  landmarks per hand; the code reads the indices 0, 4, 8, 12, 16 and 20, so the landmarks
  are a function from the index to the normalised \<open>(x, y)\<close>.
\<close>

datatype detection = NoNewFrame | NoHand | Hand "nat \<Rightarrow> real \<times> real"

definition dist2d :: "real \<times> real \<Rightarrow> real \<times> real \<Rightarrow> real" where
  "dist2d a b = sqrt ((fst a - fst b)\<^sup>2 + (snd a - snd b)\<^sup>2)"

definition avgDist_of :: "(nat \<Rightarrow> real \<times> real) \<Rightarrow> real" where
  "avgDist_of landmarks =
     (let wrist = landmarks 0;
          tips = map landmarks [4, 8, 12, 16, 20]
      in foldl (\<lambda>acc tip. acc + dist2d tip wrist) 0 tips / 5)"

fun predictWebcam :: "detection \<Rightarrow> AppState \<Rightarrow> AppState" where
  "predictWebcam NoNewFrame s = s"
| "predictWebcam (Hand landmarks) s =
     (let wrist = landmarks 0;
          pinchDist = dist2d (landmarks 4) (landmarks 8)
      in \<lparr>app_mode = setMode (avgDist_of landmarks) (app_mode s),
          app_handPosition = Some (1 - fst wrist, snd wrist),
          app_isPinching = (pinchDist < 0.05)\<rparr>)"
| "predictWebcam NoHand s = s\<lparr>app_handPosition := None, app_isPinching := False\<rparr>"

section \<open>Polaroids: the focus selector\<close>

text \<open>
  The first part of the frame callback of \<open>Polaroids\<close>. \<open>project\<close> is
  \<open>Vector3.project(camera)\<close> for the camera of the frame (normalised device
  coordinates); the camera belongs to the renderer and is a parameter here. The children
  of the group are given by their positions, in the order of \<open>photos\<close>, and
  \<open>photos[i].id\<close> is \<open>i\<close>.
  \<^verbatim>\<open>
  let closestDist = 999;
  let nextFocusedId: number | null = null;
  if (handPosition && groupRef.current.children.length > 0) {
     groupRef.current.children.forEach((child, i) => {
        const tempV = child.position.clone();
        tempV.project(camera);
        const handNDC_X = (handPosition.x - 0.5) * 2;
        const handNDC_Y = -(handPosition.y - 0.5) * 2;
        const dist = Math.sqrt(Math.pow(tempV.x - handNDC_X, 2) + Math.pow(tempV.y - handNDC_Y, 2));
        if (dist < closestDist) {
           closestDist = dist;
           nextFocusedId = photos[i].id;
        }
     });
  }
  if (!isPinching) {
     focusedIdRef.current = nextFocusedId;
  }
  \<close>
\<close>

definition screenDist :: "(vec3 \<Rightarrow> vec3) \<Rightarrow> real \<times> real \<Rightarrow> vec3 \<Rightarrow> real" where
  "screenDist project handPosition child =
     (let tempV = project child;
          handNDC_X = (fst handPosition - 0.5) * 2;
          handNDC_Y = - (snd handPosition - 0.5) * 2
      in sqrt ((vx tempV - handNDC_X)\<^sup>2 + (vy tempV - handNDC_Y)\<^sup>2))"

text \<open>
  The \<open>forEach\<close> loop from child \<open>i\<close> on, with the running pair
  \<open>(closestDist, nextFocusedId)\<close>.
\<close>

fun closestLoop :: "(vec3 \<Rightarrow> vec3) \<Rightarrow> real \<times> real \<Rightarrow> nat \<Rightarrow> real \<times> nat option \<Rightarrow> vec3 list \<Rightarrow> real \<times> nat option" where
  "closestLoop project handPosition i acc [] = acc"
| "closestLoop project handPosition i (closestDist, nextFocusedId) (child # rest) =
     (let dist = screenDist project handPosition child
      in closestLoop project handPosition (Suc i)
           (if dist < closestDist then (dist, Some i) else (closestDist, nextFocusedId)) rest)"

definition nextFocusedId_of :: "(vec3 \<Rightarrow> vec3) \<Rightarrow> (real \<times> real) option \<Rightarrow> vec3 list \<Rightarrow> nat option" where
  "nextFocusedId_of project handPosition children =
     (case handPosition of
        None \<Rightarrow> None
      | Some h \<Rightarrow>
          if length children > 0 then snd (closestLoop project h 0 (999, None) children)
          else None)"

text \<open>
  The new value of \<open>focusedIdRef.current\<close> after one frame. \<open>groupRef\<close> is \<open>None\<close>
  while the group is not mounted (\<open>if(!groupRef.current) return;\<close>), else the positions
  of its children.
\<close>

definition Polaroids_frame :: "(vec3 \<Rightarrow> vec3) \<Rightarrow> vec3 list option \<Rightarrow> (real \<times> real) option \<Rightarrow> bool \<Rightarrow> nat option \<Rightarrow> nat option" where
  "Polaroids_frame project groupRef handPosition isPinching focusedIdRef =
     (case groupRef of
        None \<Rightarrow> focusedIdRef
      | Some children \<Rightarrow>
          (let nextFocusedId = nextFocusedId_of project handPosition children
           in if \<not> isPinching then nextFocusedId else focusedIdRef))"



text \<open>
  A run of frames: each frame brings its camera projection, the group's children, the
  hand position and the pinch flag.
\<close>

fun Polaroids_frames :: "nat option \<Rightarrow> ((vec3 \<Rightarrow> vec3) \<times> vec3 list option \<times> (real \<times> real) option \<times> bool) list \<Rightarrow> nat option" where
  "Polaroids_frames focusedIdRef [] = focusedIdRef"
| "Polaroids_frames focusedIdRef ((project, groupRef, handPosition, isPinching) # fs) =
     Polaroids_frames (Polaroids_frame project groupRef handPosition isPinching focusedIdRef) fs"

text \<open>
  A pinhole camera at the origin looking down the negative \<open>z\<close> axis, with a field of
  view of 90 degrees and aspect 1: the projection of a point in front of it divides by
  the depth. It serves as a concrete camera in examples.
\<close>

definition pinhole :: "vec3 \<Rightarrow> vec3" where
  "pinhole p = Vector3 (vx p / (- vz p)) (vy p / (- vz p)) 0"

section \<open>Properties of the vector operations and of the repulsion\<close>

lemma sq3_zero: "a * a + b * b + c * c = 0 \<longleftrightarrow> a = 0 \<and> b = 0 \<and> c = (0::real)"
proof
  assume h: "a * a + b * b + c * c = 0"
  have "0 \<le> a * a" "0 \<le> b * b" "0 \<le> c * c" by simp_all
  with h have "a * a = 0" "b * b = 0" "c * c = 0" by linarith+
  then show "a = 0 \<and> b = 0 \<and> c = 0" by simp
next
  assume "a = 0 \<and> b = 0 \<and> c = 0"
  then show "a * a + b * b + c * c = 0" by simp
qed

lemma distanceTo_length: "distanceTo a b = length_v (sub_v a b)"
  by (simp add: distanceTo_def length_v_def sub_v_def Let_def)

lemma length_v_zero_iff: "length_v a = 0 \<longleftrightarrow> a = Vector3 0 0 0"
  by (cases a) (simp add: length_v_def sq3_zero)

lemma distanceTo_zero_iff: "distanceTo a b = 0 \<longleftrightarrow> a = b"
  by (cases a; cases b) (simp add: distanceTo_def Let_def sq3_zero)

lemma length_v_nonneg: "0 \<le> length_v a"
  by (simp add: length_v_def add_nonneg_nonneg)

lemma length_v_multiplyScalar: "length_v (multiplyScalar a s) = \<bar>s\<bar> * length_v a"
proof -
  have "vx a * s * (vx a * s) + vy a * s * (vy a * s) + vz a * s * (vz a * s)
        = s\<^sup>2 * (vx a * vx a + vy a * vy a + vz a * vz a)"
    by (simp add: power2_eq_square algebra_simps)
  then show ?thesis
    by (simp add: length_v_def multiplyScalar_def real_sqrt_mult)
qed

lemma repulsion_far: "3.5 \<le> distanceTo p m \<Longrightarrow> repulsion p m dt w = Vector3 0 0 0"
  by (simp add: repulsion_def Let_def)

lemma repulsion_same: "repulsion p p dt w = Vector3 0 0 0"
proof -
  have d: "distanceTo p p = 0" by (simp add: distanceTo_zero_iff)
  have s: "sub_v p p = Vector3 0 0 0" by (simp add: sub_v_def)
  show ?thesis
    by (simp add: repulsion_def Let_def d s normalize_v_def length_v_def divideScalar_def multiplyScalar_def)
qed

lemma repulsion_near:
  assumes "0 < distanceTo p m" "distanceTo p m < 3.5"
  shows "repulsion p m dt w =
         multiplyScalar (sub_v p m) ((3.5 - distanceTo p m) * 15 * dt * w / distanceTo p m)"
proof -
  have l: "length_v (sub_v p m) = distanceTo p m" by (simp add: distanceTo_length)
  show ?thesis using assms
    by (simp add: repulsion_def Let_def normalize_v_def l divideScalar_def multiplyScalar_def)
qed

lemma repulsion_near_length:
  assumes "0 < distanceTo p m" "distanceTo p m < 3.5"
  shows "length_v (repulsion p m dt w) = (3.5 - distanceTo p m) * 15 * \<bar>dt * w\<bar>"
proof -
  have l: "length_v (sub_v p m) = distanceTo p m" by (simp add: distanceTo_length)
  show ?thesis using assms
    by (simp add: repulsion_near[OF assms] length_v_multiplyScalar l abs_mult)
qed


lemma repulsion_zero_delta: "repulsion p m 0 w = Vector3 0 0 0"
  by (simp add: repulsion_def Let_def multiplyScalar_def)

lemma repulsion_length_le: "length_v (repulsion p m dt w) \<le> 3.5 * 15 * \<bar>dt * w\<bar>"
proof -
  consider "distanceTo p m = 0" | "0 < distanceTo p m" "distanceTo p m < 3.5" | "3.5 \<le> distanceTo p m"
    using length_v_nonneg[of "sub_v p m"] by (fastforce simp: distanceTo_length)
  then show ?thesis
  proof cases
    case 1
    then have "p = m" by (simp add: distanceTo_zero_iff)
    then show ?thesis by (simp add: repulsion_same length_v_def)
  next
    case 2
    have "(3.5 - distanceTo p m) * 15 * \<bar>dt * w\<bar> \<le> 3.5 * 15 * \<bar>dt * w\<bar>"
      using 2 by (intro mult_right_mono) simp_all
    then show ?thesis using repulsion_near_length[OF 2] by simp
  next
    case 3
    then show ?thesis by (simp add: repulsion_far length_v_def)
  qed
qed

subsection \<open>The order of one integration step\<close>

text \<open>
  Claim C1. For every ornament and every frame with time delta \<open>delta\<close>, the integrator
  takes the target position as destination when the mode is formed and the chaos position
  otherwise, adds \<open>(destination - current) * speed * delta\<close> to the velocity, then the
  pointer repulsion, then multiplies the velocity by the damping of the type, and last
  adds the velocity to the current position: the new position is the old one plus
  \<open>damping * (old velocity + force + repulsion)\<close>. The repulsion is computed at the old
  position. With the mesh ref set, \<open>updateList\<close> does this to every item of the list.
\<close>

theorem updateItem_order:
  assumes "profile type = (speed, damping, repulsionWeight)"
  shows "velocity (updateItem (md = Formed) mouseVec delta type item) =
           multiplyScalar
             (add_v (add_v (velocity item)
                       (multiplyScalar
                          (sub_v (if md = Formed then target item else chaos item) (current item))
                          (speed * delta)))
                (repulsion (current item) mouseVec delta repulsionWeight))
             damping
         \<and> current (updateItem (md = Formed) mouseVec delta type item) =
             add_v (current item) (velocity (updateItem (md = Formed) mouseVec delta type item))
         \<and> chaos (updateItem (md = Formed) mouseVec delta type item) = chaos item
         \<and> target (updateItem (md = Formed) mouseVec delta type item) = target item
         \<and> updateList True (md = Formed) mouseVec delta type items =
             map (updateItem (md = Formed) mouseVec delta type) items"
  using assms by (simp add: updateItem_def updateList_def Let_def)

text \<open>
  A box at rest position 0 with velocity 1 and target 1, pointer out of reach:
  \<open>(1 + 1 * 1.2 * 1) * 0.82 = 1.804\<close>.
\<close>

lemma sqrt_100: "sqrt 100 = 10"
  by (rule real_sqrt_unique) simp_all

theorem updateItem_order_witness:
  "profile Box = (1.2, 0.82, 0.2)
   \<and> velocity (updateItem (Formed = Formed) (Vector3 10 0 0) 1 Box
        \<lparr>chaos = Vector3 0 0 0, target = Vector3 1 0 0, current = Vector3 0 0 0,
         velocity = Vector3 1 0 0, scale = 1, color = Vector3 1 1 1, phase = 0\<rparr>)
     = Vector3 (1804 / 1000) 0 0"
  using updateItem_order [of Box "1.2" "0.82" "0.2" Formed "Vector3 10 0 0" 1
      "\<lparr>chaos = Vector3 0 0 0, target = Vector3 1 0 0, current = Vector3 0 0 0,
         velocity = Vector3 1 0 0, scale = 1, color = Vector3 1 1 1, phase = 0\<rparr>" "[]"]
  by (simp add: repulsion_def distanceTo_def sqrt_100 multiplyScalar_def add_v_def sub_v_def)


lemma add_v_zero: "add_v a (Vector3 0 0 0) = a"
  by (cases a) (simp add: add_v_def)

lemma multiplyScalar_zero: "multiplyScalar a 0 = Vector3 0 0 0"
  by (simp add: multiplyScalar_def)

lemma multiplyScalar_zero_vec: "multiplyScalar (Vector3 0 0 0) s = Vector3 0 0 0"
  by (simp add: multiplyScalar_def)


subsection \<open>The repulsion law\<close>






text \<open>
  Claim C8, as the code has it. When the pointer coincides with the item's position the
  difference vector is zero, \<open>normalize\<close> divides it by 1 and not by its length, and the
  contribution to the velocity is the zero vector. For every pair of positions the
  magnitude of the contribution is at most \<open>3.5 * 15 * |delta * repulsionWeight|\<close>, so it
  stays bounded near the pointer.
\<close>

theorem repulsion_at_pointer:
  "repulsion p p dt w = Vector3 0 0 0
   \<and> normalize_v (sub_v p p) = Vector3 0 0 0
   \<and> length_v (repulsion p m dt w) \<le> 3.5 * 15 * \<bar>dt * w\<bar>"
proof (intro conjI)
  show "repulsion p p dt w = Vector3 0 0 0" by (rule repulsion_same)
  show "normalize_v (sub_v p p) = Vector3 0 0 0"
    by (simp add: normalize_v_def sub_v_def length_v_def divideScalar_def multiplyScalar_def)
  show "length_v (repulsion p m dt w) \<le> 3.5 * 15 * \<bar>dt * w\<bar>" by (rule repulsion_length_le)
qed

text \<open>
  The claim as written asks for the largest magnitude at distance 0. For a light
  (weight 2.5) at \<open>delta = 1/60\<close> the contribution at distance 0 is zero, and smaller than
  the one at distance 1.
\<close>

theorem repulsion_at_pointer_counterexample:
  "distanceTo (Vector3 1 2 3) (Vector3 1 2 3) = 0
   \<and> repulsion (Vector3 1 2 3) (Vector3 1 2 3) (1 / 60) 2.5 = Vector3 0 0 0
   \<and> length_v (repulsion (Vector3 1 2 3) (Vector3 1 2 3) (1 / 60) 2.5)
       < length_v (repulsion (Vector3 2 2 3) (Vector3 1 2 3) (1 / 60) 2.5)
   \<and> length_v (repulsion (Vector3 2 2 3) (Vector3 1 2 3) (1 / 60) 2.5) = 25 / 16"
proof -
  have d0: "distanceTo (Vector3 1 2 3) (Vector3 1 2 3) = 0" by (simp add: distanceTo_def)
  have d1: "distanceTo (Vector3 2 2 3) (Vector3 1 2 3) = 1" by (simp add: distanceTo_def)
  have r0: "repulsion (Vector3 1 2 3) (Vector3 1 2 3) (1 / 60) 2.5 = Vector3 0 0 0"
    by (rule repulsion_same)
  have l0: "length_v (Vector3 0 0 0) = 0" by (simp add: length_v_def)
  have l1: "length_v (repulsion (Vector3 2 2 3) (Vector3 1 2 3) (1 / 60) 2.5) = 25 / 16"
    by (subst repulsion_near_length) (simp_all add: d1)
  show ?thesis using d0 r0 l0 l1 by simp
qed

subsection \<open>A frame with time delta 0\<close>

text \<open>
  Claim C9, as the code has it. With \<open>delta = 0\<close> the force and the repulsion are zero,
  but damping and the move still happen: the velocity becomes \<open>damping * velocity\<close> and
  the position advances by that. The step changes nothing when the velocity is zero. No
  division by \<open>delta\<close> occurs in the step.
\<close>

theorem updateItem_zero_delta:
  assumes "profile type = (speed, damping, repulsionWeight)"
  shows "updateItem isFormed mouseVec 0 type item =
           item\<lparr>velocity := multiplyScalar (velocity item) damping,
                current := add_v (current item) (multiplyScalar (velocity item) damping)\<rparr>
         \<and> (velocity item = Vector3 0 0 0 \<longrightarrow> updateItem isFormed mouseVec 0 type item = item)"
  using assms
  by (simp add: updateItem_def Let_def repulsion_zero_delta multiplyScalar_zero add_v_zero
      multiplyScalar_zero_vec)

text \<open>A light at rest stays where it is.\<close>

theorem updateItem_zero_delta_witness:
  "profile Light = (6.0, 0.95, 2.5)
   \<and> velocity \<lparr>chaos = Vector3 5 5 5, target = Vector3 1 0 0, current = Vector3 0 1 0,
         velocity = Vector3 0 0 0, scale = 1, color = Vector3 1 1 1, phase = 0\<rparr> = Vector3 0 0 0
   \<and> updateItem True (Vector3 0 0 2) 0 Light
        \<lparr>chaos = Vector3 5 5 5, target = Vector3 1 0 0, current = Vector3 0 1 0,
         velocity = Vector3 0 0 0, scale = 1, color = Vector3 1 1 1, phase = 0\<rparr>
     = \<lparr>chaos = Vector3 5 5 5, target = Vector3 1 0 0, current = Vector3 0 1 0,
         velocity = Vector3 0 0 0, scale = 1, color = Vector3 1 1 1, phase = 0\<rparr>"
  using updateItem_zero_delta [of Light "6.0" "0.95" "2.5" True "Vector3 0 0 2"
      "\<lparr>chaos = Vector3 5 5 5, target = Vector3 1 0 0, current = Vector3 0 1 0,
         velocity = Vector3 0 0 0, scale = 1, color = Vector3 1 1 1, phase = 0\<rparr>"]
  by (simp add: multiplyScalar_def add_v_def)

text \<open>
  The claim as written fails for a moving item: a bauble at its target with velocity
  \<open>(1, 0, 0)\<close> moves to \<open>(0.9, 0, 0)\<close> in a frame with \<open>delta = 0\<close>, and its velocity
  becomes \<open>(0.9, 0, 0)\<close>.
\<close>

theorem updateItem_zero_delta_counterexample:
  "updateItem True (Vector3 10 0 0) 0 Bauble
     \<lparr>chaos = Vector3 0 0 0, target = Vector3 0 0 0, current = Vector3 0 0 0,
      velocity = Vector3 1 0 0, scale = 1, color = Vector3 1 1 1, phase = 0\<rparr>
   = \<lparr>chaos = Vector3 0 0 0, target = Vector3 0 0 0, current = Vector3 (9 / 10) 0 0,
      velocity = Vector3 (9 / 10) 0 0, scale = 1, color = Vector3 1 1 1, phase = 0\<rparr>"
  by (simp add: updateItem_def Let_def repulsion_zero_delta multiplyScalar_def add_v_def sub_v_def)


section \<open>Properties of the global mode\<close>

lemma setMode_band: "0.15 \<le> s \<Longrightarrow> s \<le> 0.25 \<Longrightarrow> setMode s md = md"
  by (simp add: setMode_def)

lemma setModes_band: "(\<forall>s \<in> set xs. 0.15 \<le> s \<and> s \<le> 0.25) \<Longrightarrow> setModes md xs = md"
  by (induction xs arbitrary: md) (simp_all add: setMode_band)

text \<open>
  Claim C3. A signal value above 0.25 sets the mode to chaos, a value below 0.15 sets it
  to formed, and a value in the band from 0.15 to 0.25 leaves it as it is. Along a run of
  values that all lie in the band (so also along one that oscillates between 0.16 and
  0.24) the mode after every step is the mode the run started with. The initial mode is
  formed. \<open>predictWebcam\<close> applies this decision to the average fingertip distance of
  a detected hand, and leaves the mode alone when there is no hand or no new frame.
\<close>

theorem mode_hysteresis:
  "(0.25 < s \<longrightarrow> setMode s md = Chaos)
   \<and> (s < 0.15 \<longrightarrow> setMode s md = Formed)
   \<and> (0.15 \<le> s \<and> s \<le> 0.25 \<longrightarrow> setMode s md = md)
   \<and> ((\<forall>x \<in> set xs. 0.15 \<le> x \<and> x \<le> 0.25) \<longrightarrow> (\<forall>n. setModes md (take n xs) = md))
   \<and> app_mode App_initial = Formed
   \<and> app_mode (predictWebcam (Hand landmarks) st) = setMode (avgDist_of landmarks) (app_mode st)
   \<and> app_mode (predictWebcam NoHand st) = app_mode st
   \<and> app_mode (predictWebcam NoNewFrame st) = app_mode st"
proof (intro conjI impI allI)
  show "setMode s md = Chaos" if "0.25 < s" using that by (simp add: setMode_def)
  show "setMode s md = Formed" if "s < 0.15" using that by (simp add: setMode_def)
  show "setMode s md = md" if "0.15 \<le> s \<and> s \<le> 0.25" using that by (simp add: setMode_band)
  show "setModes md (take n xs) = md" if h: "\<forall>x \<in> set xs. 0.15 \<le> x \<and> x \<le> 0.25" for n
  proof (rule setModes_band)
    show "\<forall>s \<in> set (take n xs). 0.15 \<le> s \<and> s \<le> 0.25"
      using h by (meson in_set_takeD)
  qed
  show "app_mode App_initial = Formed" by (simp add: App_initial_def)
  show "app_mode (predictWebcam (Hand landmarks) st) = setMode (avgDist_of landmarks) (app_mode st)"
    by (simp add: Let_def)
  show "app_mode (predictWebcam NoHand st) = app_mode st" by simp
  show "app_mode (predictWebcam NoNewFrame st) = app_mode st" by simp
qed

text \<open>The signal values 0.3, 0.1 and 0.2, and the run 0.16, 0.24, 0.16, 0.24.\<close>

theorem mode_hysteresis_witness:
  "(0.25::real) < 0.3 \<and> setMode 0.3 Formed = Chaos
   \<and> (0.1::real) < 0.15 \<and> setMode 0.1 Chaos = Formed
   \<and> (0.15::real) \<le> 0.2 \<and> (0.2::real) \<le> 0.25 \<and> setMode 0.2 Chaos = Chaos
   \<and> setModes Chaos [0.16, 0.24, 0.16, 0.24] = Chaos
   \<and> setModes Formed [0.16, 0.24, 0.16, 0.24] = Formed"
  using mode_hysteresis [of "0.3" Formed "[]" "\<lambda>i. (0, 0)" App_initial]
    mode_hysteresis [of "0.1" Chaos "[0.16, 0.24, 0.16, 0.24]" "\<lambda>i. (0, 0)" App_initial]
    mode_hysteresis [of "0.2" Chaos "[]" "\<lambda>i. (0, 0)" App_initial]
    mode_hysteresis [of "0.2" Formed "[0.16, 0.24, 0.16, 0.24]" "\<lambda>i. (0, 0)" App_initial]
  by (simp add: setMode_def)

section \<open>Properties of the foliage progress\<close>

lemma lerp_unit:
  assumes "0 \<le> x" "x \<le> 1" "0 \<le> y" "y \<le> 1" "0 \<le> t" "t \<le> 1"
  shows "0 \<le> lerp x y t \<and> lerp x y t \<le> 1"
proof
  have a: "0 \<le> (1 - t) * x" and b: "0 \<le> t * y" using assms by simp_all
  show "0 \<le> lerp x y t" using a b by (simp add: lerp_def)
  have c: "(1 - t) * x \<le> (1 - t) * 1" using assms by (intro mult_left_mono) simp_all
  have d: "t * y \<le> t * 1" using assms by (intro mult_left_mono) simp_all
  show "lerp x y t \<le> 1" using c d by (simp add: lerp_def)
qed

lemma Foliage_frame_unit:
  assumes "0 \<le> p" "p \<le> 1" "0 \<le> delta" "delta \<le> 1.25"
  shows "0 \<le> Foliage_frame md delta p \<and> Foliage_frame md delta p \<le> 1"
proof -
  have t: "0 \<le> delta * 0.8" "delta * 0.8 \<le> 1" using assms by simp_all
  show ?thesis
    unfolding Foliage_frame_def Let_def
    using lerp_unit[OF assms(1,2) _ _ t] by simp
qed

lemma Foliage_frames_unit:
  "0 \<le> p \<Longrightarrow> p \<le> 1 \<Longrightarrow> (\<forall>f \<in> set fs. 0 \<le> snd f \<and> snd f \<le> 1.25)
   \<Longrightarrow> 0 \<le> Foliage_frames p fs \<and> Foliage_frames p fs \<le> 1"
proof (induction fs arbitrary: p)
  case Nil
  then show ?case by simp
next
  case (Cons f fs)
  obtain md delta where f: "f = (md, delta)" by (cases f)
  have d: "0 \<le> delta" "delta \<le> 1.25" using Cons.prems(3) f by simp_all
  have s: "0 \<le> Foliage_frame md delta p \<and> Foliage_frame md delta p \<le> 1"
    using Foliage_frame_unit[OF Cons.prems(1,2) d] .
  have r: "\<forall>f \<in> set fs. 0 \<le> snd f \<and> snd f \<le> 1.25" using Cons.prems(3) by simp
  show ?case using Cons.IH[OF _ _ r, of "Foliage_frame md delta p"] s f by simp
qed

text \<open>
  Claim C10, as the code has it. The progress starts at 0. From a value in \<open>[0, 1]\<close>,
  along every run of frames whose time deltas lie in \<open>[0, 1.25]\<close> (so that the blend
  factor \<open>delta * 0.8\<close> is at most 1), whatever the mode of each frame, the progress is
  in \<open>[0, 1]\<close> after every frame.
\<close>

theorem uProgress_unit_interval:
  "(0 \<le> uProgress \<and> uProgress \<le> 1 \<and> (\<forall>f \<in> set fs. 0 \<le> snd f \<and> snd f \<le> 1.25)
      \<longrightarrow> (\<forall>n. 0 \<le> Foliage_frames uProgress (take n fs) \<and> Foliage_frames uProgress (take n fs) \<le> 1))
   \<and> 0 \<le> uProgress_initial \<and> uProgress_initial \<le> 1"
proof (intro conjI impI allI)
  fix n
  assume h: "0 \<le> uProgress \<and> uProgress \<le> 1 \<and> (\<forall>f \<in> set fs. 0 \<le> snd f \<and> snd f \<le> 1.25)"
  then have r: "\<forall>f \<in> set (take n fs). 0 \<le> snd f \<and> snd f \<le> 1.25" by (meson in_set_takeD)
  from h have p: "0 \<le> uProgress" "uProgress \<le> 1" by simp_all
  show "0 \<le> Foliage_frames uProgress (take n fs)" using Foliage_frames_unit[OF p r] by simp
  show "Foliage_frames uProgress (take n fs) \<le> 1" using Foliage_frames_unit[OF p r] by simp
qed (simp_all add: uProgress_initial_def)

text \<open>Two frames: formed with \<open>delta = 1/60\<close>, then chaos with \<open>delta = 1.25\<close>.\<close>

theorem uProgress_unit_interval_witness:
  "Foliage_frames 0 [(Formed, 1 / 60), (Chaos, 5 / 4)] = 0
   \<and> 0 \<le> Foliage_frames 0 (take 1 [(Formed, 1 / 60), (Chaos, 5 / 4)])
   \<and> Foliage_frames 0 (take 1 [(Formed, 1 / 60), (Chaos, 5 / 4)]) \<le> 1"
  using uProgress_unit_interval [of 0 "[(Formed, 1 / 60), (Chaos, 5 / 4)]"]
  by (simp add: Foliage_frame_def lerp_def)

text \<open>
  The claim as written allows every non-negative delta. A frame of 2.5 seconds has the
  blend factor 2: in formed mode the progress goes from 0 to 2, in chaos mode from 1 to
  -1. The code does not clamp the factor.
\<close>

theorem uProgress_unit_interval_counterexample:
  "(0::real) \<le> 5 / 2 \<and> Foliage_frame Formed (5 / 2) 0 = 2 \<and> Foliage_frame Chaos (5 / 2) 1 = - 1"
  by (simp add: Foliage_frame_def lerp_def)


section \<open>Properties of the focus selector\<close>









subsection \<open>The lock under a pinch\<close>

lemma Polaroids_frame_pinching:
  "Polaroids_frame project groupRef handPosition True focusedIdRef = focusedIdRef"
  by (simp add: Polaroids_frame_def split: option.split)

lemma Polaroids_frames_pinching:
  "(\<forall>f \<in> set frames. snd (snd (snd f))) \<Longrightarrow> Polaroids_frames focusedIdRef frames = focusedIdRef"
proof (induction frames arbitrary: focusedIdRef)
  case Nil
  then show ?case by simp
next
  case (Cons f frames)
  obtain project groupRef handPosition isPinching
    where f: "f = (project, groupRef, handPosition, isPinching)" by (cases f)
  with Cons.prems have p: "isPinching" by simp
  from Cons.prems have r: "\<forall>f \<in> set frames. snd (snd (snd f))" by simp
  show ?case using Cons.IH[OF r] f p by (simp add: Polaroids_frame_pinching)
qed

text \<open>
  Claim C6. A frame with the pinch signal true leaves the focused id as it was, whatever
  the hand position, the camera and the children are. So along every run of frames that
  all have the pinch signal true, the focused id after every frame is the id the run
  started with.
\<close>

theorem focus_lock_persists:
  "Polaroids_frame project groupRef handPosition True focusedIdRef = focusedIdRef
   \<and> ((\<forall>f \<in> set frames. snd (snd (snd f)))
        \<longrightarrow> (\<forall>n. Polaroids_frames focusedIdRef (take n frames) = focusedIdRef))"
proof (intro conjI impI allI)
  show "Polaroids_frame project groupRef handPosition True focusedIdRef = focusedIdRef"
    by (rule Polaroids_frame_pinching)
next
  fix n
  assume "\<forall>f \<in> set frames. snd (snd (snd f))"
  then have "\<forall>f \<in> set (take n frames). snd (snd (snd f))" by (meson in_set_takeD)
  then show "Polaroids_frames focusedIdRef (take n frames) = focusedIdRef"
    by (rule Polaroids_frames_pinching)
qed

text \<open>
  Photo 1 is locked; during three pinching frames the hand sits on photo 0, moves away,
  and disappears: the id stays 1. Without the pinch the first of these frames would
  select photo 0.
\<close>

theorem focus_lock_persists_witness:
  "Polaroids_frames (Some 1)
     [(pinhole, Some [Vector3 1 0 (- 1), Vector3 2 0 (- 1)], Some (1, 1 / 2), True),
      (pinhole, Some [Vector3 1 0 (- 1), Vector3 2 0 (- 1)], Some (0, 1 / 2), True),
      (pinhole, Some [Vector3 1 0 (- 1), Vector3 2 0 (- 1)], None, True)] = Some 1
   \<and> Polaroids_frame pinhole (Some [Vector3 1 0 (- 1), Vector3 2 0 (- 1)]) (Some (1, 1 / 2)) False (Some 1)
       = Some 0"
proof -
  have d0: "screenDist pinhole (1, 1 / 2) (Vector3 1 0 (- 1)) = 0"
    by (simp add: screenDist_def pinhole_def Let_def)
  have d1: "screenDist pinhole (1, 1 / 2) (Vector3 2 0 (- 1)) = 1"
    by (simp add: screenDist_def pinhole_def Let_def)
  have a: "Polaroids_frame pinhole (Some [Vector3 1 0 (- 1), Vector3 2 0 (- 1)]) (Some (1, 1 / 2)) False (Some 1)
       = Some 0"
    by (simp add: Polaroids_frame_def nextFocusedId_of_def Let_def d0 d1)
  have "\<forall>n. Polaroids_frames (Some 1)
     (take n [(pinhole, Some [Vector3 1 0 (- 1), Vector3 2 0 (- 1)], Some (1, 1 / 2), True),
      (pinhole, Some [Vector3 1 0 (- 1), Vector3 2 0 (- 1)], Some (0, 1 / 2), True),
      (pinhole, Some [Vector3 1 0 (- 1), Vector3 2 0 (- 1)], None, True)]) = Some 1"
    using focus_lock_persists [of pinhole None None "Some 1"
      "[(pinhole, Some [Vector3 1 0 (- 1), Vector3 2 0 (- 1)], Some (1, 1 / 2), True),
      (pinhole, Some [Vector3 1 0 (- 1), Vector3 2 0 (- 1)], Some (0, 1 / 2), True),
      (pinhole, Some [Vector3 1 0 (- 1), Vector3 2 0 (- 1)], None, True)]"]
    by (simp del: Polaroids_frames.simps)
  then have "Polaroids_frames (Some 1)
     (take 3 [(pinhole, Some [Vector3 1 0 (- 1), Vector3 2 0 (- 1)], Some (1, 1 / 2), True),
      (pinhole, Some [Vector3 1 0 (- 1), Vector3 2 0 (- 1)], Some (0, 1 / 2), True),
      (pinhole, Some [Vector3 1 0 (- 1), Vector3 2 0 (- 1)], None, True)]) = Some 1"
    by (rule spec)
  then have b: "Polaroids_frames (Some 1)
     [(pinhole, Some [Vector3 1 0 (- 1), Vector3 2 0 (- 1)], Some (1, 1 / 2), True),
      (pinhole, Some [Vector3 1 0 (- 1), Vector3 2 0 (- 1)], Some (0, 1 / 2), True),
      (pinhole, Some [Vector3 1 0 (- 1), Vector3 2 0 (- 1)], None, True)] = Some 1"
    by (simp del: Polaroids_frames.simps)
  show ?thesis using a b by (simp del: Polaroids_frames.simps)
qed

subsection \<open>Losing the pointer\<close>



section \<open>Properties of the layout generators\<close>

text \<open>
  A point given by radius, polar angle and azimuth lies at that radius from the origin; a
  point given by angle and radius in the plane lies at that radius from the axis.
\<close>

lemma spherical_length:
  "length_v (Vector3 (r * sin p * cos t) (r * sin p * sin t) (r * cos p)) = \<bar>r\<bar>"
proof -
  have t1: "(cos t)\<^sup>2 + (sin t)\<^sup>2 = 1" by simp
  have "(r * sin p * cos t) * (r * sin p * cos t) + (r * sin p * sin t) * (r * sin p * sin t)
        + (r * cos p) * (r * cos p)
        = r\<^sup>2 * ((sin p)\<^sup>2 * ((cos t)\<^sup>2 + (sin t)\<^sup>2) + (cos p)\<^sup>2)"
    by (simp only: power2_eq_square algebra_simps)
  also have "\<dots> = r\<^sup>2" by (simp only: t1) simp
  finally show ?thesis by (simp add: length_v_def)
qed

lemma disk_length: "sqrt ((cos a * v)\<^sup>2 + (sin a * v)\<^sup>2) = \<bar>v\<bar>"
proof -
  have "(cos a * v)\<^sup>2 + (sin a * v)\<^sup>2 = v\<^sup>2 * ((cos a)\<^sup>2 + (sin a)\<^sup>2)"
    by (simp only: power2_eq_square algebra_simps)
  also have "\<dots> = v\<^sup>2" by simp
  finally show ?thesis by simp
qed

lemma root3_unit: "0 \<le> u \<Longrightarrow> u < 1 \<Longrightarrow> 0 \<le> root 3 u \<and> root 3 u < 1"
  using real_root_less_iff[of 3 u 1] by simp

lemma treeChaos_length:
  assumes "0 \<le> u1" "u1 < 1"
  shows "length_v (treeChaos u1 u2 u3) = 18 * root 3 u1 \<and> length_v (treeChaos u1 u2 u3) < 18"
  using root3_unit[OF assms] by (simp add: treeChaos_def Let_def spherical_length)

lemma ornamentChaos_length:
  assumes "0 \<le> u1" "u1 < 1"
  shows "length_v (ornamentChaos u1 u2 u3) = 14 * root 3 u1 \<and> length_v (ornamentChaos u1 u2 u3) < 14"
  using root3_unit[OF assms] by (simp add: ornamentChaos_def Let_def spherical_length)

lemma treeTarget_height: "vy (treeTarget u4 u5 u6) = (u4 - 1 / 2) * 9"
  by (simp add: treeTarget_def Let_def CONFIG_height_def)

lemma treeTarget_radius:
  assumes "0 \<le> u4" "u4 < 1" "0 \<le> u6" "u6 < 1"
  shows "sqrt ((vx (treeTarget u4 u5 u6))\<^sup>2 + (vz (treeTarget u4 u5 u6))\<^sup>2)
           = 3.5 * (1 - u4) powr 0.85 * sqrt u6
         \<and> sqrt ((vx (treeTarget u4 u5 u6))\<^sup>2 + (vz (treeTarget u4 u5 u6))\<^sup>2)
           \<le> 3.5 * (1 - u4) powr 0.85"
proof -
  have h: "1 - ((u4 - 0.5) * 9 + 9 / 2) / 9 = 1 - u4" by (simp add: field_simps)
  have s: "0 \<le> sqrt u6" "sqrt u6 \<le> 1" using assms by simp_all
  have p: "0 \<le> (1 - u4) powr 0.85" by simp
  have v: "0 \<le> 3.5 * (1 - u4) powr 0.85 * sqrt u6" using s p by simp
  have e: "sqrt ((vx (treeTarget u4 u5 u6))\<^sup>2 + (vz (treeTarget u4 u5 u6))\<^sup>2)
           = 3.5 * (1 - u4) powr 0.85 * sqrt u6"
    unfolding treeTarget_def Let_def CONFIG_height_def CONFIG_radius_def vec3.sel h disk_length
    using v by simp
  have "3.5 * (1 - u4) powr 0.85 * sqrt u6 \<le> 3.5 * (1 - u4) powr 0.85"
    using s p by (intro mult_left_le) simp_all
  then have l: "sqrt ((vx (treeTarget u4 u5 u6))\<^sup>2 + (vz (treeTarget u4 u5 u6))\<^sup>2)
           \<le> 3.5 * (1 - u4) powr 0.85"
    by (simp only: e)
  show ?thesis by (intro conjI e l)
qed

text \<open>
  The generated points in closed form: the sine of the polar angle is the square root of
  one minus the squared cosine, and the normalised height is written out in the height
  draw.
\<close>

lemma disk_square: "(cos a * v)\<^sup>2 + (sin a * v)\<^sup>2 = (v::real)\<^sup>2"
proof -
  have "(cos a * v)\<^sup>2 + (sin a * v)\<^sup>2 = v\<^sup>2 * ((cos a)\<^sup>2 + (sin a)\<^sup>2)"
    by (simp only: power2_eq_square algebra_simps)
  also have "\<dots> = v\<^sup>2" by simp
  finally show ?thesis .
qed

lemma treeChaos_coords:
  assumes "0 \<le> u3" "u3 < 1"
  shows "treeChaos u1 u2 u3 =
         Vector3 (18 * root 3 u1 * sqrt (1 - (2 * u3 - 1)\<^sup>2) * cos (u2 * 2 * pi))
                 (18 * root 3 u1 * sqrt (1 - (2 * u3 - 1)\<^sup>2) * sin (u2 * 2 * pi))
                 (18 * root 3 u1 * (2 * u3 - 1))"
proof -
  have b: "- 1 \<le> 2 * u3 - 1" "2 * u3 - 1 \<le> 1" using assms by simp_all
  show ?thesis
    unfolding treeChaos_def Let_def sin_arccos[OF b] cos_arccos[OF b] ..
qed

lemma ornamentChaos_coords:
  assumes "0 \<le> u3" "u3 < 1"
  shows "ornamentChaos u1 u2 u3 =
         Vector3 (14 * root 3 u1 * sqrt (1 - (2 * u3 - 1)\<^sup>2) * cos (u2 * 2 * pi))
                 (14 * root 3 u1 * sqrt (1 - (2 * u3 - 1)\<^sup>2) * sin (u2 * 2 * pi))
                 (14 * root 3 u1 * (2 * u3 - 1))"
proof -
  have b: "- 1 \<le> 2 * u3 - 1" "2 * u3 - 1 \<le> 1" using assms by simp_all
  show ?thesis
    unfolding ornamentChaos_def Let_def sin_arccos[OF b] cos_arccos[OF b] ..
qed

lemma volume_fraction:
  assumes "0 \<le> u1" "0 < R" "l = R * root 3 u1"
  shows "(l / R) ^ 3 = u1"
proof -
  have "l / R = root 3 u1" using assms by simp
  then show ?thesis using assms(1) by simp
qed

lemma treeTarget_coords:
  "treeTarget u4 u5 u6 =
     Vector3 (cos ((u4 - 1 / 2) * 9 * 8 + u5 * pi * 2) * (3.5 * (1 - u4) powr 0.85 * sqrt u6))
             ((u4 - 1 / 2) * 9)
             (sin ((u4 - 1 / 2) * 9 * 8 + u5 * pi * 2) * (3.5 * (1 - u4) powr 0.85 * sqrt u6))"
proof -
  have h: "1 - ((u4 - 0.5) * 9 + 9 / 2) / 9 = 1 - u4" by (simp add: field_simps)
  have y: "(u4 - 0.5) * 9 = (u4 - 1 / 2) * 9" by simp
  have e: "(8.0::real) = 8" by simp
  show ?thesis
    unfolding treeTarget_def Let_def CONFIG_height_def CONFIG_radius_def h
    unfolding y e ..
qed

lemma treeTarget_area:
  assumes "0 \<le> u6"
  shows "(vx (treeTarget u4 u5 u6))\<^sup>2 + (vz (treeTarget u4 u5 u6))\<^sup>2
         = (3.5 * (1 - u4) powr 0.85)\<^sup>2 * u6"
proof -
  have "(vx (treeTarget u4 u5 u6))\<^sup>2 + (vz (treeTarget u4 u5 u6))\<^sup>2
        = (3.5 * (1 - u4) powr 0.85 * sqrt u6)\<^sup>2"
    unfolding treeTarget_coords vec3.sel by (rule disk_square)
  also have "\<dots> = (3.5 * (1 - u4) powr 0.85)\<^sup>2 * (sqrt u6)\<^sup>2"
    by (rule power_mult_distrib)
  also have "\<dots> = (3.5 * (1 - u4) powr 0.85)\<^sup>2 * u6"
    using assms by simp
  finally show ?thesis .
qed

lemma ornamentTarget_coords:
  "ornamentTarget u4 u5 =
     Vector3 (cos (u5 * pi * 2) * (3.1 * ((11 - 10 * u4) / 12)))
             ((u4 - 1 / 2) * 7.5)
             (sin (u5 * pi * 2) * (3.1 * ((11 - 10 * u4) / 12)))"
proof -
  have h: "(3.5 - 0.4) * (1 - ((u4 - 0.5) * (9 - 1.5) + 9 / 2) / 9) = 3.1 * ((11 - 10 * u4) / 12)"
    by (simp add: field_simps)
  have y: "(u4 - 0.5) * (9 - 1.5) = (u4 - 1 / 2) * 7.5" by simp
  show ?thesis
    unfolding ornamentTarget_def Let_def CONFIG_height_def CONFIG_radius_def h
    unfolding y ..
qed

lemma generateTreeData_all:
  "length (chaosPositions (generateTreeData count rnd)) = count
   \<and> length (targetPositions (generateTreeData count rnd)) = count
   \<and> length (sizes (generateTreeData count rnd)) = count
   \<and> length (randoms (generateTreeData count rnd)) = count
   \<and> (i < count \<longrightarrow>
        chaosPositions (generateTreeData count rnd) ! i
          = treeChaos (rnd (8 * i)) (rnd (8 * i + 1)) (rnd (8 * i + 2))
        \<and> targetPositions (generateTreeData count rnd) ! i
          = treeTarget (rnd (8 * i + 3)) (rnd (8 * i + 4)) (rnd (8 * i + 5))
        \<and> sizes (generateTreeData count rnd) ! i = rnd (8 * i + 6) * 0.8 + 0.2
        \<and> randoms (generateTreeData count rnd) ! i = rnd (8 * i + 7))"
  by (simp add: generateTreeData_def)

text \<open>
  Two radii in the ratio 2 at heights in the ratio 2 fit no power law with an exponent
  below 1.
\<close>

lemma no_power_law:
  "\<not> (\<exists>R p. p < 1 \<and> 31 / 20 = R * (1 / 2) powr p \<and> 31 / 40 = R * (1 / 4) powr (p::real))"
proof
  assume "\<exists>R p. p < 1 \<and> 31 / 20 = R * (1 / 2) powr p \<and> 31 / 40 = R * (1 / 4) powr (p::real)"
  then obtain R p :: real where p: "p < 1" and a: "31 / 20 = R * (1 / 2) powr p"
    and b: "31 / 40 = R * (1 / 4) powr p" by blast
  have q: "(1 / 2 :: real) powr p = (1 / 4) powr p * 2 powr p"
    using powr_mult[of "1 / 4" 2 p] by simp
  have "R * (1 / 2) powr p = 2 * (R * (1 / 4) powr p)"
    using a[symmetric] b[symmetric] by linarith
  then have "(R * (1 / 4) powr p) * 2 powr p = (R * (1 / 4) powr p) * 2"
    by (simp add: q algebra_simps)
  moreover have "R * (1 / 4) powr p \<noteq> 0"
  proof
    assume "R * (1 / 4) powr p = 0"
    with b show False by simp
  qed
  ultimately have "2 powr p = (2::real)" by simp
  then have "2 powr p = (2::real) powr 1" by simp
  then have "p = 1" by (simp only: powr_inj[of 2 p 1])
  with p show False by simp
qed

text \<open>
  Claim C4, as the code has it, with every call of \<open>Math.random()\<close> a draw in
  \<open>[0, 1)\<close>. A foliage point gets a chaos coordinate in the sphere of radius 18
  by the three sampling laws of the uniform distribution on that sphere: the radius is
  \<open>18 * cbrt u1\<close>, so the fraction of the sphere's volume within the point's radius is
  the draw \<open>u1\<close> itself (cube-root law); the polar angle is \<open>arccos (2 * u3 - 1)\<close>, so
  its cosine is the draw stretched onto \<open>[-1, 1)\<close>; the azimuth is the draw stretched
  onto \<open>[0, 2 * pi)\<close>. It gets a target coordinate at the height
  \<open>y = (u4 - 0.5) * 9\<close>, of normalised height \<open>h = 1 - (y + 4.5) / 9 = 1 - u4\<close>, in
  the disk of radius \<open>3.5 * h powr 0.85\<close> (exponent below 1), by the square-root
  sampling law of the uniform distribution on that disk: its distance from the axis is that radius times
  \<open>sqrt u6\<close>, so the fraction of the disk's area within the point's distance is the draw
  \<open>u6\<close> itself, at the angle \<open>8 * y + 2 * pi * u5\<close>. An ornament gets its chaos
  coordinate by the same three laws in the sphere of radius 14. Its target coordinate, at
  the height \<open>y = (u4 - 0.5) * 7.5\<close> of normalised height \<open>h = (11 - 10 * u4) / 12\<close>,
  lies on the surface of a straight cone: its distance from the axis is exactly
  \<open>3.1 * h\<close>, with exponent 1 and no radius sampling, at the angle \<open>2 * pi * u5\<close>.
  \<open>generateTreeData count\<close> returns \<open>count\<close> points, none for \<open>count = 0\<close>, the
  \<open>i\<close>-th from the eight draws \<open>8 * i\<close> onwards.
\<close>

theorem layout_generators:
  "(0 \<le> u1 \<and> u1 < 1 \<and> 0 \<le> u2 \<and> u2 < 1 \<and> 0 \<le> u3 \<and> u3 < 1
    \<and> 0 \<le> u4 \<and> u4 < 1 \<and> 0 \<le> u5 \<and> u5 < 1 \<and> 0 \<le> u6 \<and> u6 < 1 \<longrightarrow>
      treeChaos u1 u2 u3 =
        Vector3 (18 * root 3 u1 * sqrt (1 - (2 * u3 - 1)\<^sup>2) * cos (u2 * 2 * pi))
                (18 * root 3 u1 * sqrt (1 - (2 * u3 - 1)\<^sup>2) * sin (u2 * 2 * pi))
                (18 * root 3 u1 * (2 * u3 - 1))
      \<and> length_v (treeChaos u1 u2 u3) = 18 * root 3 u1
      \<and> length_v (treeChaos u1 u2 u3) < 18
      \<and> (length_v (treeChaos u1 u2 u3) / 18) ^ 3 = u1
      \<and> - 1 \<le> 2 * u3 - 1 \<and> 2 * u3 - 1 < 1
      \<and> 0 \<le> u2 * 2 * pi \<and> u2 * 2 * pi < 2 * pi
      \<and> treeTarget u4 u5 u6 =
          Vector3 (cos ((u4 - 1 / 2) * 9 * 8 + u5 * pi * 2) * (3.5 * (1 - u4) powr 0.85 * sqrt u6))
                  ((u4 - 1 / 2) * 9)
                  (sin ((u4 - 1 / 2) * 9 * 8 + u5 * pi * 2) * (3.5 * (1 - u4) powr 0.85 * sqrt u6))
      \<and> 1 - (vy (treeTarget u4 u5 u6) + 9 / 2) / 9 = 1 - u4
      \<and> sqrt ((vx (treeTarget u4 u5 u6))\<^sup>2 + (vz (treeTarget u4 u5 u6))\<^sup>2)
          = 3.5 * (1 - u4) powr 0.85 * sqrt u6
      \<and> sqrt ((vx (treeTarget u4 u5 u6))\<^sup>2 + (vz (treeTarget u4 u5 u6))\<^sup>2)
          \<le> 3.5 * (1 - u4) powr 0.85
      \<and> (vx (treeTarget u4 u5 u6))\<^sup>2 + (vz (treeTarget u4 u5 u6))\<^sup>2
          = (3.5 * (1 - u4) powr 0.85)\<^sup>2 * u6
      \<and> 0 \<le> u5 * pi * 2 \<and> u5 * pi * 2 < 2 * pi
      \<and> ornamentChaos u1 u2 u3 =
          Vector3 (14 * root 3 u1 * sqrt (1 - (2 * u3 - 1)\<^sup>2) * cos (u2 * 2 * pi))
                  (14 * root 3 u1 * sqrt (1 - (2 * u3 - 1)\<^sup>2) * sin (u2 * 2 * pi))
                  (14 * root 3 u1 * (2 * u3 - 1))
      \<and> length_v (ornamentChaos u1 u2 u3) = 14 * root 3 u1
      \<and> length_v (ornamentChaos u1 u2 u3) < 14
      \<and> (length_v (ornamentChaos u1 u2 u3) / 14) ^ 3 = u1
      \<and> ornamentTarget u4 u5 =
          Vector3 (cos (u5 * pi * 2) * (3.1 * ((11 - 10 * u4) / 12)))
                  ((u4 - 1 / 2) * 7.5)
                  (sin (u5 * pi * 2) * (3.1 * ((11 - 10 * u4) / 12)))
      \<and> 1 - (vy (ornamentTarget u4 u5) + 9 / 2) / 9 = (11 - 10 * u4) / 12
      \<and> sqrt ((vx (ornamentTarget u4 u5))\<^sup>2 + (vz (ornamentTarget u4 u5))\<^sup>2)
          = 3.1 * ((11 - 10 * u4) / 12))
   \<and> length (chaosPositions (generateTreeData count rnd)) = count
   \<and> length (targetPositions (generateTreeData count rnd)) = count
   \<and> length (sizes (generateTreeData count rnd)) = count
   \<and> length (randoms (generateTreeData count rnd)) = count
   \<and> (i < count \<longrightarrow>
        chaosPositions (generateTreeData count rnd) ! i
          = treeChaos (rnd (8 * i)) (rnd (8 * i + 1)) (rnd (8 * i + 2))
        \<and> targetPositions (generateTreeData count rnd) ! i
          = treeTarget (rnd (8 * i + 3)) (rnd (8 * i + 4)) (rnd (8 * i + 5))
        \<and> sizes (generateTreeData count rnd) ! i = rnd (8 * i + 6) * 0.8 + 0.2
        \<and> randoms (generateTreeData count rnd) ! i = rnd (8 * i + 7))"
  (is "(?H \<longrightarrow> ?C) \<and> ?G")
proof (rule conjI)
  show "?H \<longrightarrow> ?C"
  proof (rule impI)
    assume h: ?H
    then have u1: "0 \<le> u1" "u1 < 1" and u2: "0 \<le> u2" "u2 < 1" and u3: "0 \<le> u3" "u3 < 1"
      and u4: "0 \<le> u4" "u4 < 1" and u5: "0 \<le> u5" "u5 < 1" and u6: "0 \<le> u6" "u6 < 1"
      by simp_all
    note a1 = treeChaos_coords[OF u3, of u1 u2]
    have a2: "length_v (treeChaos u1 u2 u3) = 18 * root 3 u1"
      and a3: "length_v (treeChaos u1 u2 u3) < 18"
      using treeChaos_length[OF u1, of u2 u3] by blast+
    have a4: "(length_v (treeChaos u1 u2 u3) / 18) ^ 3 = u1"
      by (rule volume_fraction[OF u1(1) _ a2]) simp
    have a5: "- 1 \<le> 2 * u3 - 1" and a6: "2 * u3 - 1 < 1" using u3 by simp_all
    have a7: "0 \<le> u2 * 2 * pi" using u2 by simp
    have a8: "u2 * 2 * pi < 2 * pi" using u2 by simp
    note b1 = treeTarget_coords[of u4 u5 u6]
    have b2: "1 - (vy (treeTarget u4 u5 u6) + 9 / 2) / 9 = 1 - u4"
      by (simp add: treeTarget_height field_simps)
    have b3: "sqrt ((vx (treeTarget u4 u5 u6))\<^sup>2 + (vz (treeTarget u4 u5 u6))\<^sup>2)
          = 3.5 * (1 - u4) powr 0.85 * sqrt u6"
      and b4: "sqrt ((vx (treeTarget u4 u5 u6))\<^sup>2 + (vz (treeTarget u4 u5 u6))\<^sup>2)
          \<le> 3.5 * (1 - u4) powr 0.85"
      using treeTarget_radius[OF u4 u6, of u5] by blast+
    note b5 = treeTarget_area[OF u6(1), of u4 u5]
    have b6: "0 \<le> u5 * pi * 2" using u5 by simp
    have b7: "u5 * pi * 2 < 2 * pi" using u5 by simp
    note c1 = ornamentChaos_coords[OF u3, of u1 u2]
    have c2: "length_v (ornamentChaos u1 u2 u3) = 14 * root 3 u1"
      and c3: "length_v (ornamentChaos u1 u2 u3) < 14"
      using ornamentChaos_length[OF u1, of u2 u3] by blast+
    have c4: "(length_v (ornamentChaos u1 u2 u3) / 14) ^ 3 = u1"
      by (rule volume_fraction[OF u1(1) _ c2]) simp
    note d1 = ornamentTarget_coords[of u4 u5]
    have d2: "1 - (vy (ornamentTarget u4 u5) + 9 / 2) / 9 = (11 - 10 * u4) / 12"
      by (simp add: ornamentTarget_coords field_simps)
    have n: "0 \<le> 3.1 * ((11 - 10 * u4) / 12)" using u4 by simp
    have "sqrt ((vx (ornamentTarget u4 u5))\<^sup>2 + (vz (ornamentTarget u4 u5))\<^sup>2)
          = \<bar>3.1 * ((11 - 10 * u4) / 12)\<bar>"
      unfolding ornamentTarget_coords vec3.sel by (rule disk_length)
    also have "\<dots> = 3.1 * ((11 - 10 * u4) / 12)" using n by (rule abs_of_nonneg)
    finally have d3: "sqrt ((vx (ornamentTarget u4 u5))\<^sup>2 + (vz (ornamentTarget u4 u5))\<^sup>2)
          = 3.1 * ((11 - 10 * u4) / 12)" .
    show ?C
      by (intro conjI a1 a2 a3 a4 a5 a6 a7 a8 b1 b2 b3 b4 b5 b6 b7 c1 c2 c3 c4 d1 d2 d3)
  qed
next
  show ?G
    by (rule generateTreeData_all)
qed


text \<open>
  The draws \<open>u1 = 1/8\<close>, \<open>u2 = 1/4\<close>, \<open>u3 = 1/2\<close>, \<open>u4 = 1/2\<close>, \<open>u5 = 0\<close>,
  \<open>u6 = 1/4\<close>, and a population of two points with every draw \<open>1/2\<close>.
\<close>

lemma root3_eighth: "root 3 (1 / 8) = 1 / 2"
proof -
  have "root 3 ((1 / 2) ^ 3) = (1 / 2 :: real)" by (rule real_root_power_cancel) simp_all
  then show ?thesis by (simp add: power3_eq_cube)
qed

theorem layout_generators_witness:
  "treeChaos (1 / 8) (1 / 4) (1 / 2) = Vector3 0 9 0
   \<and> length_v (treeChaos (1 / 8) (1 / 4) (1 / 2)) = 9
   \<and> treeTarget (1 / 2) 0 (1 / 4) = Vector3 (3.5 * (1 / 2) powr 0.85 * (1 / 2)) 0 0
   \<and> ornamentChaos (1 / 8) (1 / 4) (1 / 2) = Vector3 0 7 0
   \<and> ornamentTarget (1 / 2) 0 = Vector3 (31 / 20) 0 0
   \<and> sqrt ((vx (ornamentTarget (1 / 2) 0))\<^sup>2 + (vz (ornamentTarget (1 / 2) 0))\<^sup>2) = 31 / 20
   \<and> chaosPositions (generateTreeData 2 (\<lambda>k. 1 / 2)) ! 1 = treeChaos (1 / 2) (1 / 2) (1 / 2)"
proof -
  note t = layout_generators [of "1 / 8" "1 / 4" "1 / 2" "1 / 2" 0 "1 / 4" 2 "\<lambda>k. 1 / 2" 1]
  have h: "0 \<le> (1 / 8 :: real) \<and> (1 / 8 :: real) < 1 \<and> 0 \<le> (1 / 4 :: real) \<and> (1 / 4 :: real) < 1
      \<and> 0 \<le> (1 / 2 :: real) \<and> (1 / 2 :: real) < 1 \<and> 0 \<le> (1 / 2 :: real) \<and> (1 / 2 :: real) < 1
      \<and> 0 \<le> (0 :: real) \<and> (0 :: real) < 1 \<and> 0 \<le> (1 / 4 :: real) \<and> (1 / 4 :: real) < 1"
    by simp
  note d = mp[OF conjunct1[OF t] h]
  have g: "chaosPositions (generateTreeData 2 (\<lambda>k. 1 / 2)) ! 1 = treeChaos (1 / 2) (1 / 2) (1 / 2)"
    using t by simp
  from d have "treeChaos (1 / 8) (1 / 4) (1 / 2) =
        Vector3 (18 * root 3 (1 / 8) * sqrt (1 - (2 * (1 / 2) - 1)\<^sup>2) * cos (1 / 4 * 2 * pi))
                (18 * root 3 (1 / 8) * sqrt (1 - (2 * (1 / 2) - 1)\<^sup>2) * sin (1 / 4 * 2 * pi))
                (18 * root 3 (1 / 8) * (2 * (1 / 2) - 1))" by blast
  then have c1: "treeChaos (1 / 8) (1 / 4) (1 / 2) = Vector3 0 9 0"
    by (simp add: root3_eighth)
  from d have "length_v (treeChaos (1 / 8) (1 / 4) (1 / 2)) = 18 * root 3 (1 / 8)" by blast
  then have c2: "length_v (treeChaos (1 / 8) (1 / 4) (1 / 2)) = 9" by (simp add: root3_eighth)
  from d have "treeTarget (1 / 2) 0 (1 / 4) =
          Vector3 (cos ((1 / 2 - 1 / 2) * 9 * 8 + 0 * pi * 2) * (3.5 * (1 - 1 / 2) powr 0.85 * sqrt (1 / 4)))
                  ((1 / 2 - 1 / 2) * 9)
                  (sin ((1 / 2 - 1 / 2) * 9 * 8 + 0 * pi * 2) * (3.5 * (1 - 1 / 2) powr 0.85 * sqrt (1 / 4)))"
    by blast
  then have c3: "treeTarget (1 / 2) 0 (1 / 4) = Vector3 (3.5 * (1 / 2) powr 0.85 * (1 / 2)) 0 0"
    by (simp add: real_sqrt_divide)
  from d have "ornamentChaos (1 / 8) (1 / 4) (1 / 2) =
        Vector3 (14 * root 3 (1 / 8) * sqrt (1 - (2 * (1 / 2) - 1)\<^sup>2) * cos (1 / 4 * 2 * pi))
                (14 * root 3 (1 / 8) * sqrt (1 - (2 * (1 / 2) - 1)\<^sup>2) * sin (1 / 4 * 2 * pi))
                (14 * root 3 (1 / 8) * (2 * (1 / 2) - 1))" by blast
  then have c4: "ornamentChaos (1 / 8) (1 / 4) (1 / 2) = Vector3 0 7 0"
    by (simp add: root3_eighth)
  from d have "ornamentTarget (1 / 2) 0 =
          Vector3 (cos (0 * pi * 2) * (3.1 * ((11 - 10 * (1 / 2)) / 12)))
                  ((1 / 2 - 1 / 2) * 7.5)
                  (sin (0 * pi * 2) * (3.1 * ((11 - 10 * (1 / 2)) / 12)))" by blast
  then have c5: "ornamentTarget (1 / 2) 0 = Vector3 (31 / 20) 0 0" by simp
  from d have "sqrt ((vx (ornamentTarget (1 / 2) 0))\<^sup>2 + (vz (ornamentTarget (1 / 2) 0))\<^sup>2)
          = 3.1 * ((11 - 10 * (1 / 2)) / 12)" by blast
  also have "\<dots> = 31 / 20" by simp
  finally have c6: "sqrt ((vx (ornamentTarget (1 / 2) 0))\<^sup>2 + (vz (ornamentTarget (1 / 2) 0))\<^sup>2)
          = 31 / 20" .
  show ?thesis by (intro conjI c1 c2 c3 c4 c5 c6 g)
qed

text \<open>
  The claim as written covers every category. The ornament targets at the normalised
  height \<open>1/2\<close> lie at the distance \<open>31/20\<close> from the axis whatever the angle drawn,
  and the one at the normalised height \<open>1/4\<close> at \<open>31/40\<close>: the radius is \<open>3.1 * h\<close>,
  and no radius \<open>R\<close> and exponent below 1 give both values.
\<close>

theorem layout_generators_counterexample:
  "ornamentTarget (1 / 2) 0 = Vector3 (31 / 20) 0 0
   \<and> ornamentTarget (1 / 2) (1 / 4) = Vector3 0 0 (31 / 20)
   \<and> ornamentTarget (4 / 5) 0 = Vector3 (31 / 40) (9 / 4) 0
   \<and> \<not> (\<exists>R p. p < 1 \<and> 31 / 20 = R * (1 / 2) powr p \<and> 31 / 40 = R * (1 / 4) powr (p::real))"
proof (intro conjI)
  show "ornamentTarget (1 / 2) 0 = Vector3 (31 / 20) 0 0"
    by (simp add: ornamentTarget_coords)
  show "ornamentTarget (1 / 2) (1 / 4) = Vector3 0 0 (31 / 20)"
    by (simp add: ornamentTarget_coords)
  show "ornamentTarget (4 / 5) 0 = Vector3 (31 / 40) (9 / 4) 0"
    by (simp add: ornamentTarget_coords)
  show "\<not> (\<exists>R p. p < 1 \<and> 31 / 20 = R * (1 / 2) powr p \<and> 31 / 40 = R * (1 / 4) powr (p::real))"
    by (rule no_power_law)
qed


end
